theory Spec2Isabelle
  imports Main "HOL-Library.Word"
begin

unbundle bit_operations_syntax

section \<open>Python values used by \<open>hmt_escrow/storage.py\<close>\<close>

text \<open>
  \<open>bytes\<close> is a list of 8-bit words; \<open>str\<close> is a list of Unicode code points.
  Exceptions are values: a call that raises returns \<open>Inl e\<close>.
\<close>

type_synonym byte = "8 word"
type_synonym bytes = "byte list"
type_synonym pystr = "nat list"

datatype exn =
    TypeError
  | ValueError
  | JSONDecodeError
  | UnicodeEncodeError
  | UnicodeDecodeError
  | BinasciiError string
  | ValidationError
  | DecryptionError string
  | ConnectionError
  | TimeoutError
  | ErrorResponse
  | EndpointConnectionError
  | ClientError string

definition ascii :: "string \<Rightarrow> pystr" where
  "ascii s = map of_char s"

definition bind_exn :: "exn + 'a \<Rightarrow> ('a \<Rightarrow> exn + 'b) \<Rightarrow> exn + 'b" where
  "bind_exn r f = (case r of Inl e \<Rightarrow> Inl e | Inr x \<Rightarrow> f x)"

subsection \<open>\<open>str.encode('utf-8')\<close> and \<open>bytes.decode('utf-8')\<close>\<close>

text \<open>
  One code point becomes one to four byte values. Surrogates (U+D800 to U+DFFF) are
  not encodable: Python raises \<open>UnicodeEncodeError\<close>. A Python \<open>str\<close> holds no
  code point above U+10FFFF; the model rejects such a value the same way.
\<close>

definition utf8_encode_cp :: "nat \<Rightarrow> nat list option" where
  "utf8_encode_cp cp =
     (if cp < 0x80 then Some [cp]
      else if cp < 0x800 then Some [0xC0 + cp div 64, 0x80 + cp mod 64]
      else if cp < 0x10000 then
        (if 0xD800 \<le> cp \<and> cp \<le> 0xDFFF then None
         else Some [0xE0 + cp div 4096, 0x80 + cp div 64 mod 64, 0x80 + cp mod 64])
      else if cp < 0x110000 then
        Some [0xF0 + cp div 262144, 0x80 + cp div 4096 mod 64,
              0x80 + cp div 64 mod 64, 0x80 + cp mod 64]
      else None)"

fun utf8_encode_nat :: "pystr \<Rightarrow> exn + nat list" where
  "utf8_encode_nat [] = Inr []"
| "utf8_encode_nat (cp # cps) =
     (case utf8_encode_cp cp of
        None \<Rightarrow> Inl UnicodeEncodeError
      | Some bs \<Rightarrow> (case utf8_encode_nat cps of Inl e \<Rightarrow> Inl e | Inr r \<Rightarrow> Inr (bs @ r)))"

definition str_encode :: "pystr \<Rightarrow> exn + bytes" where
  "str_encode s = (case utf8_encode_nat s of Inl e \<Rightarrow> Inl e | Inr ns \<Rightarrow> Inr (map of_nat ns))"

text \<open>
  The strict decoder: the first byte fixes the length of the sequence and the range of
  the second byte (no overlong forms, no surrogates, nothing above U+10FFFF); every
  further byte is a continuation byte \<open>0x80..0xBF\<close>. Anything else raises
  \<open>UnicodeDecodeError\<close>.
\<close>

definition utf8_decode1 :: "nat list \<Rightarrow> (nat \<times> nat list) option" where
  "utf8_decode1 bs =
     (case bs of
        [] \<Rightarrow> None
      | b0 # r0 \<Rightarrow>
          if b0 < 0x80 then Some (b0, r0)
          else if 0xC2 \<le> b0 \<and> b0 \<le> 0xDF then
            (case r0 of
               b1 # r1 \<Rightarrow>
                 if 0x80 \<le> b1 \<and> b1 \<le> 0xBF
                 then Some ((b0 - 0xC0) * 64 + (b1 - 0x80), r1) else None
             | _ \<Rightarrow> None)
          else if 0xE0 \<le> b0 \<and> b0 \<le> 0xEF then
            (case r0 of
               b1 # b2 # r2 \<Rightarrow>
                 if (if b0 = 0xE0 then 0xA0 else 0x80) \<le> b1
                    \<and> b1 \<le> (if b0 = 0xED then 0x9F else 0xBF)
                    \<and> 0x80 \<le> b2 \<and> b2 \<le> 0xBF
                 then Some ((b0 - 0xE0) * 4096 + (b1 - 0x80) * 64 + (b2 - 0x80), r2)
                 else None
             | _ \<Rightarrow> None)
          else if 0xF0 \<le> b0 \<and> b0 \<le> 0xF4 then
            (case r0 of
               b1 # b2 # b3 # r3 \<Rightarrow>
                 if (if b0 = 0xF0 then 0x90 else 0x80) \<le> b1
                    \<and> b1 \<le> (if b0 = 0xF4 then 0x8F else 0xBF)
                    \<and> 0x80 \<le> b2 \<and> b2 \<le> 0xBF \<and> 0x80 \<le> b3 \<and> b3 \<le> 0xBF
                 then Some ((b0 - 0xF0) * 262144 + (b1 - 0x80) * 4096
                            + (b2 - 0x80) * 64 + (b3 - 0x80), r3)
                 else None
             | _ \<Rightarrow> None)
          else None)"

function utf8_decode_nat :: "nat list \<Rightarrow> exn + pystr" where
  "utf8_decode_nat [] = Inr []"
| "utf8_decode_nat (b # bs) =
     (case utf8_decode1 (b # bs) of
        None \<Rightarrow> Inl UnicodeDecodeError
      | Some (cp, rest) \<Rightarrow>
          (case utf8_decode_nat rest of Inl e \<Rightarrow> Inl e | Inr cps \<Rightarrow> Inr (cp # cps)))"
  by pat_completeness auto
termination
  by (relation "measure length") (auto simp: utf8_decode1_def split: list.splits if_splits)

definition bytes_decode :: "bytes \<Rightarrow> exn + pystr" where
  "bytes_decode bs = utf8_decode_nat (map unat bs)"

subsection \<open>\<open>codecs.decode(_, 'hex')\<close>\<close>

text \<open>
  Two hexadecimal digits (either case) give one byte. An odd length is rejected before
  any digit is read; a character that is no hexadecimal digit is rejected when reached.
  Both raise \<open>binascii.Error\<close>, with the text the codec gives it.
\<close>

definition hex_val :: "byte \<Rightarrow> nat option" where
  "hex_val b =
     (let c = unat b in
      if 48 \<le> c \<and> c \<le> 57 then Some (c - 48)
      else if 97 \<le> c \<and> c \<le> 102 then Some (c - 87)
      else if 65 \<le> c \<and> c \<le> 70 then Some (c - 55)
      else None)"

fun unhex_pairs :: "bytes \<Rightarrow> exn + bytes" where
  "unhex_pairs [] = Inr []"
| "unhex_pairs [c] =
     Inl (BinasciiError ''decoding with 'hex' codec failed (Error: Odd-length string)'')"
| "unhex_pairs (c1 # c2 # cs) =
     (case (hex_val c1, hex_val c2) of
        (Some h, Some l) \<Rightarrow>
          (case unhex_pairs cs of Inl e \<Rightarrow> Inl e | Inr r \<Rightarrow> Inr (of_nat (16 * h + l) # r))
      | _ \<Rightarrow>
          Inl (BinasciiError
                 ''decoding with 'hex' codec failed (Error: Non-hexadecimal digit found)''))"

definition hex_decode :: "bytes \<Rightarrow> exn + bytes" where
  "hex_decode bs =
     (if odd (length bs)
      then Inl (BinasciiError ''decoding with 'hex' codec failed (Error: Odd-length string)'')
      else unhex_pairs bs)"

subsection \<open>\<open>hashlib.sha1(_).hexdigest()\<close>\<close>

text \<open>
  SHA-1 as in FIPS 180: the message is padded to a multiple of 64 bytes (a \<open>0x80\<close>
  byte, zeros, the bit length as 64 bits big-endian), and each block of sixteen 32-bit
  words, extended to eighty, drives eighty rounds on five 32-bit state words.
\<close>

type_synonym sha1_state = "32 word \<times> 32 word \<times> 32 word \<times> 32 word \<times> 32 word"

definition rotl32 :: "nat \<Rightarrow> 32 word \<Rightarrow> 32 word" where
  "rotl32 n w = push_bit n w OR drop_bit (32 - n) w"

definition be32 :: "bytes \<Rightarrow> 32 word" where
  "be32 bs = foldl (\<lambda>acc b. push_bit 8 acc OR ucast b) 0 (take 4 bs)"

fun chunks :: "nat \<Rightarrow> 'a list \<Rightarrow> 'a list list" where
  "chunks n [] = []"
| "chunks n (x # xs) =
     (if n = 0 then [] else take n (x # xs) # chunks n (drop n (x # xs)))"

definition sha1_pad :: "bytes \<Rightarrow> bytes" where
  "sha1_pad m =
     (let l = length m;
          k = (119 - l mod 64) mod 64;
          bits = (of_nat (8 * l) :: 64 word)
      in m @ [0x80] @ replicate k 0 @ map (\<lambda>i. ucast (drop_bit (8 * (7 - i)) bits)) [0..<8])"

fun sha1_f :: "nat \<Rightarrow> 32 word \<Rightarrow> 32 word \<Rightarrow> 32 word \<Rightarrow> 32 word" where
  "sha1_f t b c d =
     (if t < 20 then (b AND c) OR (NOT b AND d)
      else if t < 40 then b XOR c XOR d
      else if t < 60 then (b AND c) OR (b AND d) OR (c AND d)
      else b XOR c XOR d)"

fun sha1_k :: "nat \<Rightarrow> 32 word" where
  "sha1_k t =
     (if t < 20 then 0x5A827999 else if t < 40 then 0x6ED9EBA1
      else if t < 60 then 0x8F1BBCDC else 0xCA62C1D6)"

fun sha1_extend :: "nat \<Rightarrow> 32 word list \<Rightarrow> 32 word list" where
  "sha1_extend 0 ws = ws"
| "sha1_extend (Suc n) ws =
     (let t = length ws in
      sha1_extend n
        (ws @ [rotl32 1 (ws ! (t - 3) XOR ws ! (t - 8) XOR ws ! (t - 14) XOR ws ! (t - 16))]))"

fun sha1_round :: "sha1_state \<Rightarrow> nat \<times> 32 word \<Rightarrow> sha1_state" where
  "sha1_round (a, b, c, d, e) (t, w) =
     (rotl32 5 a + sha1_f t b c d + e + sha1_k t + w, a, rotl32 30 b, c, d)"

fun sha1_block :: "sha1_state \<Rightarrow> bytes \<Rightarrow> sha1_state" where
  "sha1_block (h0, h1, h2, h3, h4) blk =
     (let ws = sha1_extend 64 (map be32 (chunks 4 blk));
          (a, b, c, d, e) = foldl sha1_round (h0, h1, h2, h3, h4) (zip [0..<80] ws)
      in (h0 + a, h1 + b, h2 + c, h3 + d, h4 + e))"

definition sha1 :: "bytes \<Rightarrow> sha1_state" where
  "sha1 m =
     foldl sha1_block (0x67452301, 0xEFCDAB89, 0x98BADCFE, 0x10325476, 0xC3D2E1F0)
       (chunks 64 (sha1_pad m))"

definition word32_bytes :: "32 word \<Rightarrow> bytes" where
  "word32_bytes w = map (\<lambda>i. ucast (drop_bit (8 * (3 - i)) w)) [0..<4]"

fun sha1_digest :: "sha1_state \<Rightarrow> bytes" where
  "sha1_digest (h0, h1, h2, h3, h4) = concat (map word32_bytes [h0, h1, h2, h3, h4])"

definition hex_digit :: "nat \<Rightarrow> nat" where
  "hex_digit d = (if d < 10 then 48 + d else 87 + d)"

definition hex_byte :: "byte \<Rightarrow> pystr" where
  "hex_byte b = [hex_digit (unat b div 16), hex_digit (unat b mod 16)]"

definition sha1_hexdigest :: "bytes \<Rightarrow> pystr" where
  "sha1_hexdigest m = concat (map hex_byte (sha1_digest (sha1 m)))"


section \<open>The libraries and services the module calls\<close>

text \<open>
  The module imports \<open>json\<close>, \<open>eth_keys.keys\<close>, \<open>p2p.ecies\<close>, \<open>ipfshttpclient\<close> and
  \<open>boto3\<close>. Their code is not part of the module, so what they compute is a parameter:
  \<open>json_dumps msg sort_keys\<close> and \<open>json_loads\<close> stand for \<open>json.dumps\<close> and
  \<open>json.loads\<close>, \<open>keys_PublicKey\<close> and \<open>keys_PrivateKey\<close> for the key
  constructors, \<open>ecies_encrypt r data pubkey shared_mac_data\<close> for \<open>ecies.encrypt\<close>
  run with the random bytes \<open>r\<close>, \<open>ecies_decrypt data privkey shared_mac_data\<close> for
  \<open>ecies.decrypt\<close>, and \<open>ipfs_key\<close> for the key the content store assigns to a byte
  string. The last four fields are the module-level constants read from the process
  environment when the module is loaded.
\<close>

record ('doc, 'pk, 'sk, 'rnd) env =
  json_dumps :: "'doc \<Rightarrow> bool \<Rightarrow> exn + pystr"
  json_loads :: "pystr \<Rightarrow> exn + 'doc"
  keys_PublicKey :: "bytes \<Rightarrow> exn + 'pk"
  keys_PrivateKey :: "bytes \<Rightarrow> exn + 'sk"
  ecies_encrypt :: "'rnd \<Rightarrow> bytes \<Rightarrow> 'pk \<Rightarrow> bytes \<Rightarrow> exn + bytes"
  ecies_decrypt :: "bytes \<Rightarrow> 'sk \<Rightarrow> bytes \<Rightarrow> exn + bytes"
  ipfs_key :: "bytes \<Rightarrow> pystr"
  SHARED_MAC_DATA :: bytes
  IPFS_HOST :: pystr
  IPFS_PORT :: int
  ESCROW_BUCKETNAME :: pystr

text \<open>
  The world outside the process: the blocks of the content store, the objects of the
  object store by bucket and key, the exception (if any) with which each service call
  fails, the random bytes the operating system hands out, and two histories: the
  requests sent to the services and the calls made on the module's logger.
\<close>

datatype request =
    IpfsConnect pystr int
  | IpfsAddBytes bytes
  | IpfsCat pystr nat
  | S3Client
  | S3PutObject pystr pystr bytes
  | S3GetObject pystr pystr

datatype log_level = Debug | Info | Warning | Error

datatype log_arg = ArgStr pystr | ArgBytes bytes | ArgExn exn

datatype log_record = LogRecord log_level string "log_arg list"

record 'rnd world =
  ipfs_connect_fault :: "exn option"
  ipfs_add_fault :: "exn option"
  ipfs_cat_fault :: "exn option"
  ipfs_blocks :: "pystr \<rightharpoonup> bytes"
  s3_client_fault :: "exn option"
  s3_put_fault :: "exn option"
  s3_get_fault :: "exn option"
  s3_objects :: "pystr \<times> pystr \<rightharpoonup> bytes"
  entropy :: "nat \<Rightarrow> 'rnd"
  draws :: nat
  requests :: "request list"
  logged :: "log_record list"

subsection \<open>Statements that may raise and change the world\<close>

type_synonym ('a, 'rnd) io = "'rnd world \<Rightarrow> (exn + 'a) \<times> 'rnd world"

definition return_io :: "'a \<Rightarrow> ('a, 'rnd) io" where
  "return_io x = (\<lambda>w. (Inr x, w))"

definition raise_io :: "exn \<Rightarrow> ('a, 'rnd) io" where
  "raise_io e = (\<lambda>w. (Inl e, w))"

definition lift_io :: "exn + 'a \<Rightarrow> ('a, 'rnd) io" where
  "lift_io r = (\<lambda>w. (r, w))"

definition bind_io :: "('a, 'rnd) io \<Rightarrow> ('a \<Rightarrow> ('b, 'rnd) io) \<Rightarrow> ('b, 'rnd) io" where
  "bind_io m f = (\<lambda>w. case m w of (Inl e, w') \<Rightarrow> (Inl e, w') | (Inr x, w') \<Rightarrow> f x w')"

definition try_except :: "('a, 'rnd) io \<Rightarrow> (exn \<Rightarrow> ('a, 'rnd) io) \<Rightarrow> ('a, 'rnd) io" where
  "try_except m h = (\<lambda>w. case m w of (Inl e, w') \<Rightarrow> h e w' | (Inr x, w') \<Rightarrow> (Inr x, w'))"

definition LOG :: "log_level \<Rightarrow> string \<Rightarrow> log_arg list \<Rightarrow> (unit, 'rnd) io" where
  "LOG lvl msg args = (\<lambda>w. (Inr (), w\<lparr>logged := logged w @ [LogRecord lvl msg args]\<rparr>))"

definition sent :: "request \<Rightarrow> 'rnd world \<Rightarrow> 'rnd world" where
  "sent r w = w\<lparr>requests := requests w @ [r]\<rparr>"

subsection \<open>The two stores and the random source\<close>

datatype ipfs_client = IpfsClient pystr int

datatype s3_client = Boto3Client

definition ipfshttpclient_connect :: "pystr \<Rightarrow> int \<Rightarrow> (ipfs_client, 'rnd) io" where
  "ipfshttpclient_connect host port =
     (\<lambda>w. (case ipfs_connect_fault w of
              Some e \<Rightarrow> Inl e
            | None \<Rightarrow> Inr (IpfsClient host port),
            sent (IpfsConnect host port) w))"

definition add_bytes ::
  "('doc, 'pk, 'sk, 'rnd) env \<Rightarrow> ipfs_client \<Rightarrow> bytes \<Rightarrow> (pystr, 'rnd) io" where
  "add_bytes E client body =
     (\<lambda>w. case ipfs_add_fault w of
             Some e \<Rightarrow> (Inl e, sent (IpfsAddBytes body) w)
           | None \<Rightarrow>
               (Inr (ipfs_key E body),
                sent (IpfsAddBytes body) (w\<lparr>ipfs_blocks := (ipfs_blocks w)(ipfs_key E body \<mapsto> body)\<rparr>)))"

text \<open>
  A block the store cannot find is waited for until the timeout given by the caller.
\<close>

definition cat :: "ipfs_client \<Rightarrow> pystr \<Rightarrow> nat \<Rightarrow> (bytes, 'rnd) io" where
  "cat client key timeout =
     (\<lambda>w. (case ipfs_cat_fault w of
              Some e \<Rightarrow> Inl e
            | None \<Rightarrow> (case ipfs_blocks w key of None \<Rightarrow> Inl TimeoutError | Some body \<Rightarrow> Inr body),
            sent (IpfsCat key timeout) w))"

definition boto3_client :: "(s3_client, 'rnd) io" where
  "boto3_client =
     (\<lambda>w. (case s3_client_fault w of Some e \<Rightarrow> Inl e | None \<Rightarrow> Inr Boto3Client,
            sent S3Client w))"

definition put_object :: "s3_client \<Rightarrow> pystr \<Rightarrow> pystr \<Rightarrow> bytes \<Rightarrow> (unit, 'rnd) io" where
  "put_object client bucket key body =
     (\<lambda>w. case s3_put_fault w of
             Some e \<Rightarrow> (Inl e, sent (S3PutObject bucket key body) w)
           | None \<Rightarrow>
               (Inr (),
                sent (S3PutObject bucket key body)
                  (w\<lparr>s3_objects := (s3_objects w)((bucket, key) \<mapsto> body)\<rparr>)))"

text \<open>
  A key under which the bucket holds nothing makes \<open>get_object\<close> raise the
  client's \<open>ClientError\<close> with the code \<open>NoSuchKey\<close>.
\<close>

definition get_object :: "s3_client \<Rightarrow> pystr \<Rightarrow> pystr \<Rightarrow> (bytes, 'rnd) io" where
  "get_object client bucket key =
     (\<lambda>w. (case s3_get_fault w of
              Some e \<Rightarrow> Inl e
            | None \<Rightarrow>
                (case s3_objects w (bucket, key) of
                   None \<Rightarrow> Inl (ClientError ''NoSuchKey'')
                 | Some body \<Rightarrow> Inr body),
            sent (S3GetObject bucket key) w))"

definition urandom :: "('rnd, 'rnd) io" where
  "urandom = (\<lambda>w. (Inr (entropy w (draws w)), w\<lparr>draws := Suc (draws w)\<rparr>))"


section \<open>The module \<open>hmt_escrow/storage.py\<close>\<close>

text \<open>
  Python names that start with an underscore are written with the prefix \<open>u_\<close>:
  \<open>u_connect\<close> is \<open>_connect\<close>, \<open>u_connect_s3\<close> is \<open>_connect_s3\<close>, \<open>u_decrypt\<close> is
  \<open>_decrypt\<close> and \<open>u_encrypt\<close> is \<open>_encrypt\<close>. Each \<open>try\<close> block is a
  \<open>try_except\<close> of its body and its handler, in the order of the source.
\<close>

definition u_connect :: "pystr \<Rightarrow> int \<Rightarrow> (ipfs_client, 'rnd) io" where
  "u_connect host port =
     try_except (ipfshttpclient_connect host port)
       (\<lambda>e. bind_io (LOG Error ''Connection with IPFS failed because of: {}'' [ArgExn e])
               (\<lambda>_. raise_io e))"

definition u_connect_s3 :: "(s3_client, 'rnd) io" where
  "u_connect_s3 =
     try_except boto3_client
       (\<lambda>e. bind_io (LOG Error ''Connection with S3 failed because of: {e}'' [ArgExn e])
               (\<lambda>_. raise_io e))"

definition u_decrypt :: "('doc, 'pk, 'sk, 'rnd) env \<Rightarrow> bytes \<Rightarrow> bytes \<Rightarrow> exn + pystr" where
  "u_decrypt E private_key msg =
     bind_exn (bind_exn (hex_decode private_key) (keys_PrivateKey E))
       (\<lambda>priv_key. bind_exn (ecies_decrypt E msg priv_key (SHARED_MAC_DATA E))
          (\<lambda>e. bytes_decode e))"

definition u_encrypt :: "('doc, 'pk, 'sk, 'rnd) env \<Rightarrow> bytes \<Rightarrow> pystr \<Rightarrow> (bytes, 'rnd) io" where
  "u_encrypt E public_key msg =
     bind_io (lift_io (bind_exn (hex_decode public_key) (keys_PublicKey E)))
       (\<lambda>pub_key. bind_io (lift_io (str_encode msg))
          (\<lambda>msg_bytes. bind_io urandom
             (\<lambda>r. lift_io (ecies_encrypt E r msg_bytes pub_key (SHARED_MAC_DATA E)))))"

text \<open>
  The parameter \<open>s3: bool = True\<close> is an optional argument: \<open>None\<close> is a call that
  leaves it out.
\<close>

definition s3_default :: "bool option \<Rightarrow> bool" where
  "s3_default s3 = (case s3 of None \<Rightarrow> True | Some b \<Rightarrow> b)"

definition download ::
  "('doc, 'pk, 'sk, 'rnd) env \<Rightarrow> pystr \<Rightarrow> bytes \<Rightarrow> bool option \<Rightarrow> ('doc, 'rnd) io" where
  "download E key private_key s3 =
     (if \<not> s3_default s3 then
        bind_io
          (try_except
             (bind_io (u_connect (IPFS_HOST E) (IPFS_PORT E))
                (\<lambda>client. bind_io (LOG Debug ''Downloading key: {}'' [ArgStr key])
                   (\<lambda>_. bind_io (cat client key 30)
                      (\<lambda>ciphertext. lift_io (u_decrypt E private_key ciphertext)))))
             (\<lambda>e. bind_io
                     (LOG Warning
                        ''Reading the key {!r} with private key {!r} with IPFS failed because of: {!r}''
                        [ArgStr key, ArgBytes private_key, ArgExn e])
                     (\<lambda>_. raise_io e)))
          (\<lambda>msg. lift_io (json_loads E msg))
      else
        bind_io
          (try_except
             (bind_io (LOG Debug ''Downloading s3 key: {}'' [ArgStr key])
                (\<lambda>_. bind_io u_connect_s3
                   (\<lambda>client. bind_io (get_object client (ESCROW_BUCKETNAME E) key)
                      (\<lambda>ciphertext. lift_io (u_decrypt E private_key ciphertext)))))
             (\<lambda>e. bind_io
                     (LOG Warning
                        ''Reading the key {!r} with private key {!r} with S3 failed because of: {!r}''
                        [ArgStr key, ArgBytes private_key, ArgExn e])
                     (\<lambda>_. raise_io e)))
          (\<lambda>msg. lift_io (json_loads E msg)))"

definition upload ::
  "('doc, 'pk, 'sk, 'rnd) env \<Rightarrow> 'doc \<Rightarrow> bytes \<Rightarrow> bool option \<Rightarrow> (pystr \<times> pystr, 'rnd) io" where
  "upload E msg public_key s3 =
     bind_io
       (try_except (lift_io (json_dumps E msg True))
          (\<lambda>e. bind_io (LOG Error ''Can't extract the json from the dict'' [])
                  (\<lambda>_. raise_io e)))
       (\<lambda>manifest. bind_io (lift_io (str_encode manifest))
          (\<lambda>manifest_bytes.
             (let hash = sha1_hexdigest manifest_bytes in
              if \<not> s3_default s3 then
                try_except
                  (bind_io (u_connect (IPFS_HOST E) (IPFS_PORT E))
                     (\<lambda>client. bind_io (u_encrypt E public_key manifest)
                        (\<lambda>encrypted_msg. bind_io (add_bytes E client encrypted_msg)
                           (\<lambda>key. bind_io (LOG Debug ''Uploaded to IPFS, key: {key}'' [ArgStr key])
                              (\<lambda>_. return_io (hash, key))))))
                  (\<lambda>e. bind_io (LOG Warning ''Adding bytes with IPFS failed because of: {}'' [ArgExn e])
                          (\<lambda>_. raise_io e))
              else
                bind_io
                  (try_except
                     (bind_io u_connect_s3
                        (\<lambda>client. bind_io (u_encrypt E public_key manifest)
                           (\<lambda>encrypted_msg.
                              bind_io (put_object client (ESCROW_BUCKETNAME E) hash encrypted_msg)
                                (\<lambda>_. LOG Debug ''Uploaded to S3, used hash as key: {hash_}''
                                        [ArgStr hash]))))
                     (\<lambda>e. LOG Warning
                             ''Uploading with S3 failed with hash / key {hash_} because of: {e}''
                             [ArgStr hash, ArgExn e]))
                  (\<lambda>_. return_io (hash, hash)))))"


section \<open>Notions used to state the properties\<close>

text \<open>
  A world in which no service call fails; a document that \<open>json\<close> writes as text that
  can be encoded and reads back as an equal document; a public and a private key, given
  in hexadecimal as the module takes them, that the key constructors accept and for
  which the encryption library undoes its own encryption.
\<close>

definition healthy :: "'rnd world \<Rightarrow> bool" where
  "healthy w \<longleftrightarrow>
     ipfs_connect_fault w = None \<and> ipfs_add_fault w = None \<and> ipfs_cat_fault w = None \<and>
     s3_client_fault w = None \<and> s3_put_fault w = None \<and> s3_get_fault w = None"

definition json_compatible :: "('doc, 'pk, 'sk, 'rnd) env \<Rightarrow> 'doc \<Rightarrow> bool" where
  "json_compatible E D \<longleftrightarrow>
     (\<exists>s bs. json_dumps E D True = Inr s \<and> str_encode s = Inr bs \<and> json_loads E s = Inr D)"

definition valid_key_pair :: "('doc, 'pk, 'sk, 'rnd) env \<Rightarrow> bytes \<Rightarrow> bytes \<Rightarrow> bool" where
  "valid_key_pair E public_key private_key \<longleftrightarrow>
     (\<exists>P K. bind_exn (hex_decode public_key) (keys_PublicKey E) = Inr P \<and>
            bind_exn (hex_decode private_key) (keys_PrivateKey E) = Inr K \<and>
            (\<forall>r m. \<exists>c. ecies_encrypt E r m P (SHARED_MAC_DATA E) = Inr c \<and>
                        ecies_decrypt E c K (SHARED_MAC_DATA E) = Inr m))"

definition bytes_literal :: "string \<Rightarrow> bytes" where
  "bytes_literal s = map (\<lambda>c. of_nat (of_char c)) s"

section \<open>The encryption scheme as the specification describes it\<close>

text \<open>
  Modelled from the spec: \<open>p2p.ecies\<close> is not among the sources. The specification
  (sections 4.3 and 6) describes the scheme: an ephemeral key pair is generated per
  encryption call; a shared secret is derived by key agreement between the ephemeral
  private key and the recipient's public key; a symmetric key and a message
  authentication key are derived from the shared secret; the plaintext is symmetrically
  encrypted; the shared MAC data is mixed into the authentication tag alongside the
  ephemeral public key and the ciphertext; the result embeds the ephemeral public key,
  the authentication tag and the encrypted payload. Decryption fails with
  \<open>DecryptionError\<close> (a tag-verification failure) unless the tag it recomputes is the
  tag it finds. The primitives themselves (curve, key derivation, cipher, MAC, wire
  format) are parameters.
\<close>

record ('sk, 'pk, 'sec, 'key, 'tag) ecies_prims =
  public_key_of :: "'sk \<Rightarrow> 'pk"
  key_agreement :: "'sk \<Rightarrow> 'pk \<Rightarrow> 'sec"
  derive_keys :: "'sec \<Rightarrow> 'key \<times> 'key"
  sym_encrypt :: "'key \<Rightarrow> bytes \<Rightarrow> bytes"
  sym_decrypt :: "'key \<Rightarrow> bytes \<Rightarrow> bytes"
  auth_tag :: "'key \<Rightarrow> 'pk \<Rightarrow> bytes \<Rightarrow> bytes \<Rightarrow> 'tag"
  wire_encode :: "'pk \<Rightarrow> 'tag \<Rightarrow> bytes \<Rightarrow> bytes"
  wire_decode :: "bytes \<Rightarrow> ('pk \<times> 'tag \<times> bytes) option"

text \<open>
  Modelled from the spec: encryption, in the order of section 4.3. The ephemeral
  private key is the random value of the call.
\<close>

definition spec_encrypt ::
  "('sk, 'pk, 'sec, 'key, 'tag) ecies_prims \<Rightarrow> 'sk \<Rightarrow> bytes \<Rightarrow> 'pk \<Rightarrow> bytes \<Rightarrow> exn + bytes" where
  "spec_encrypt P ephemeral plaintext pubkey shared_mac_data =
     (let ephem_pubkey = public_key_of P ephemeral;
          (key_enc, key_mac) = derive_keys P (key_agreement P ephemeral pubkey);
          payload = sym_encrypt P key_enc plaintext;
          tag = auth_tag P key_mac ephem_pubkey payload shared_mac_data
      in Inr (wire_encode P ephem_pubkey tag payload))"

text \<open>
  Modelled from the spec: decryption reads the three parts back, derives the keys from
  its own private key and the ephemeral public key, and compares the tags; a ciphertext
  it cannot read (truncated, say) fails the same way.
\<close>

definition spec_decrypt ::
  "('sk, 'pk, 'sec, 'key, 'tag) ecies_prims \<Rightarrow> bytes \<Rightarrow> 'sk \<Rightarrow> bytes \<Rightarrow> exn + bytes" where
  "spec_decrypt P ciphertext privkey shared_mac_data =
     (case wire_decode P ciphertext of
        None \<Rightarrow> Inl (DecryptionError ''Failed to verify tag'')
      | Some (ephem_pubkey, tag, payload) \<Rightarrow>
          (let (key_enc, key_mac) = derive_keys P (key_agreement P privkey ephem_pubkey)
           in if auth_tag P key_mac ephem_pubkey payload shared_mac_data = tag
              then Inr (sym_decrypt P key_enc payload)
              else Inl (DecryptionError ''Failed to verify tag'')))"

text \<open>
  What the scheme needs of its primitives: the wire format can be read back, key
  agreement gives both sides the same secret, and the symmetric cipher is undone by its
  inverse under the same key.
\<close>

definition prims_ok :: "('sk, 'pk, 'sec, 'key, 'tag) ecies_prims \<Rightarrow> bool" where
  "prims_ok P \<longleftrightarrow>
     (\<forall>e t p. wire_decode P (wire_encode P e t p) = Some (e, t, p)) \<and>
     (\<forall>a b. key_agreement P a (public_key_of P b) = key_agreement P b (public_key_of P a)) \<and>
     (\<forall>k m. sym_decrypt P k (sym_encrypt P k m) = m)"





section \<open>A small instance\<close>

text \<open>
  An instance of the parameters on which the functions can be run: one-byte keys with
  multiplication as key agreement, a shift cipher, a checksum as tag, the document of
  the specification's example and an object that \<open>json\<close> cannot serialize, and the
  default values of the module-level constants.
\<close>

definition demo_wire_decode :: "bytes \<Rightarrow> (byte \<times> byte \<times> bytes) option" where
  "demo_wire_decode ct = (case ct of e # t # p \<Rightarrow> Some (e, t, p) | _ \<Rightarrow> None)"

definition demo_prims :: "(byte, byte, byte, byte, byte) ecies_prims" where
  "demo_prims =
     \<lparr>public_key_of = (\<lambda>k. 3 * k),
      key_agreement = (\<lambda>a p. a * p),
      derive_keys = (\<lambda>s. (s, s + 1)),
      sym_encrypt = (\<lambda>k. map (\<lambda>b. b + k)),
      sym_decrypt = (\<lambda>k. map (\<lambda>b. b - k)),
      auth_tag = (\<lambda>k e p smd. k + e + sum_list p + sum_list smd),
      wire_encode = (\<lambda>e t p. e # t # p),
      wire_decode = demo_wire_decode\<rparr>"

datatype demo_doc = Task_label_reward_5 | Not_serializable

definition demo_dumps :: "demo_doc \<Rightarrow> bool \<Rightarrow> exn + pystr" where
  "demo_dumps D sort_keys =
     (case D of
        Task_label_reward_5 \<Rightarrow>
          Inr (ascii (if sort_keys then ''{\"reward\": 5, \"task\": \"label\"}''
                      else ''{\"task\": \"label\", \"reward\": 5}''))
      | Not_serializable \<Rightarrow> Inl TypeError)"

definition demo_loads :: "pystr \<Rightarrow> exn + demo_doc" where
  "demo_loads s =
     (if s = ascii ''{\"reward\": 5, \"task\": \"label\"}''
         \<or> s = ascii ''{\"task\": \"label\", \"reward\": 5}''
      then Inr Task_label_reward_5 else Inl JSONDecodeError)"

definition demo_key :: "bytes \<Rightarrow> exn + byte" where
  "demo_key raw = (case raw of [b] \<Rightarrow> Inr b | _ \<Rightarrow> Inl ValidationError)"

definition demo_env :: "(demo_doc, byte, byte, byte) env" where
  "demo_env =
     \<lparr>json_dumps = demo_dumps,
      json_loads = demo_loads,
      keys_PublicKey = demo_key,
      keys_PrivateKey = demo_key,
      ecies_encrypt = spec_encrypt demo_prims,
      ecies_decrypt = spec_decrypt demo_prims,
      ipfs_key = (\<lambda>body. ascii ''Qm'' @ map unat body),
      SHARED_MAC_DATA =
        bytes_literal ''9da0d3721774843193737244a0f3355191f66ff7321e83eae83f7f746eb34350'',
      IPFS_HOST = ascii ''localhost'',
      IPFS_PORT = 5001,
      ESCROW_BUCKETNAME = ascii ''escrow-results''\<rparr>"

definition demo_world :: "byte world" where
  "demo_world =
     \<lparr>ipfs_connect_fault = None, ipfs_add_fault = None, ipfs_cat_fault = None,
      ipfs_blocks = Map.empty,
      s3_client_fault = None, s3_put_fault = None, s3_get_fault = None,
      s3_objects = Map.empty,
      entropy = (\<lambda>n. of_nat n + 1), draws = 0, requests = [], logged = []\<rparr>"

definition demo_public_key :: bytes where
  "demo_public_key = bytes_literal ''15''"

definition demo_private_key :: bytes where
  "demo_private_key = bytes_literal ''07''"


definition demo_manifest :: pystr where
  "demo_manifest = ascii ''{\"reward\": 5, \"task\": \"label\"}''"

definition demo_manifest_bytes :: bytes where
  "demo_manifest_bytes = bytes_literal ''{\"reward\": 5, \"task\": \"label\"}''"

text \<open>
  The ciphertext of the example document for \<open>demo_public_key\<close> with the first
  random byte of \<open>demo_world\<close>, and a world in which every put on the object store
  fails.
\<close>

definition demo_ciphertext :: bytes where
  "demo_ciphertext =
     3 # (22 + 3 + sum_list (map (\<lambda>b. b + 21) demo_manifest_bytes)
            + sum_list (SHARED_MAC_DATA demo_env))
       # map (\<lambda>b. b + 21) demo_manifest_bytes"

definition put_fails :: "byte world" where
  "put_fails = demo_world\<lparr>s3_put_fault := Some EndpointConnectionError\<rparr>"

subsection \<open>An instance with a collision-free tag\<close>











section \<open>Encoding and digest facts\<close>

text \<open>
  Decoding undoes encoding, one code point at a time: the three quotients of the code
  point by 64 are its base-64 digits, and the ranges of the first two bytes are exactly
  those the strict decoder accepts.
\<close>

lemma utf8_decode1_encode_cp:
  assumes "utf8_encode_cp cp = Some bs"
  shows "utf8_decode1 (bs @ rest) = Some (cp, rest)"
proof -
  define q1 where "q1 = cp div 64"
  define d where "d = cp mod 64"
  define q2 where "q2 = q1 div 64"
  define c where "c = q1 mod 64"
  define q3 where "q3 = q2 div 64"
  define b where "b = q2 mod 64"
  have e1: "cp = q1 * 64 + d" "d < 64" unfolding q1_def d_def by simp_all
  have e2: "q1 = q2 * 64 + c" "c < 64" unfolding q2_def c_def by simp_all
  have e3: "q2 = q3 * 64 + b" "b < 64" unfolding q3_def b_def by simp_all
  have q2: "cp div 4096 = q2" unfolding q2_def q1_def by (simp add: div_mult2_eq)
  have q3: "cp div 262144 = q3" unfolding q3_def q2_def q1_def by (simp add: div_mult2_eq)
  have cc: "cp div 64 mod 64 = c" unfolding c_def q1_def by simp
  have bb: "cp div 4096 mod 64 = b" unfolding b_def using q2 by simp
  consider (one) "cp < 0x80"
    | (two) "0x80 \<le> cp" "cp < 0x800"
    | (three) "0x800 \<le> cp" "cp < 0x10000" "\<not> (0xD800 \<le> cp \<and> cp \<le> 0xDFFF)"
    | (four) "0x10000 \<le> cp" "cp < 0x110000"
    using assms by (auto simp: utf8_encode_cp_def split: if_splits)
  then show ?thesis
  proof cases
    case one
    then show ?thesis using assms by (auto simp: utf8_encode_cp_def utf8_decode1_def)
  next
    case two
    have bs: "bs = [0xC0 + q1, 0x80 + d]"
      using assms two by (simp add: utf8_encode_cp_def q1_def d_def)
    have "2 \<le> q1" "q1 \<le> 31" "q1 * 64 + d = cp"
      using two e1 by linarith+
    then show ?thesis using e1(2) by (simp add: bs utf8_decode1_def)
  next
    case three
    have bs: "bs = [0xE0 + q2, 0x80 + c, 0x80 + d]"
      using assms three by (simp add: utf8_encode_cp_def q2 cc d_def)
    have "q2 \<le> 15" "q2 * 4096 + c * 64 + d = cp"
      "q2 = 0 \<longrightarrow> 32 \<le> c" "q2 = 13 \<longrightarrow> c \<le> 31"
      using three e1 e2 by linarith+
    then show ?thesis using e1(2) e2(2) by (simp add: bs utf8_decode1_def)
  next
    case four
    have bs: "bs = [0xF0 + q3, 0x80 + b, 0x80 + c, 0x80 + d]"
      using assms four by (simp add: utf8_encode_cp_def q3 bb cc d_def)
    have "q3 \<le> 4" "q3 * 262144 + b * 4096 + c * 64 + d = cp"
      "q3 = 0 \<longrightarrow> 16 \<le> b" "q3 = 4 \<longrightarrow> b \<le> 15"
      using four e1 e2 e3 by linarith+
    then show ?thesis using e1(2) e2(2) e3(2) by (simp add: bs utf8_decode1_def)
  qed
qed

lemma utf8_encode_cp_bytes: "utf8_encode_cp cp = Some bs \<Longrightarrow> list_all (\<lambda>b. b < 256) bs"
  unfolding utf8_encode_cp_def
  by (auto split: if_splits)

lemma utf8_encode_cp_nonempty: "utf8_encode_cp cp = Some bs \<Longrightarrow> bs \<noteq> []"
  unfolding utf8_encode_cp_def
  by (auto split: if_splits)

lemma utf8_decode_nat_step:
  "bs \<noteq> [] \<Longrightarrow> utf8_decode1 bs = Some (cp, rest) \<Longrightarrow>
   utf8_decode_nat bs = (case utf8_decode_nat rest of Inl e \<Rightarrow> Inl e | Inr cps \<Rightarrow> Inr (cp # cps))"
  by (cases bs) simp_all

lemma utf8_decode_encode_nat:
  "utf8_encode_nat s = Inr ns \<Longrightarrow> utf8_decode_nat ns = Inr s \<and> list_all (\<lambda>b. b < 256) ns"
proof (induction s arbitrary: ns)
  case Nil
  then show ?case by simp
next
  case (Cons cp cps)
  from Cons.prems obtain bs r where
    bs: "utf8_encode_cp cp = Some bs" and r: "utf8_encode_nat cps = Inr r" and ns: "ns = bs @ r"
    by (auto split: option.splits sum.splits)
  from Cons.IH [OF r] have ih: "utf8_decode_nat r = Inr cps" "list_all (\<lambda>b. b < 256) r"
    by simp_all
  have "utf8_decode_nat (bs @ r) = Inr (cp # cps)"
    using utf8_decode_nat_step [of "bs @ r" cp r] utf8_decode1_encode_cp [OF bs, of r]
      utf8_encode_cp_nonempty [OF bs] ih(1)
    by simp
  then show ?case
    using ns ih(2) utf8_encode_cp_bytes [OF bs] by simp
qed

lemma unat_of_nat_bytes:
  "list_all (\<lambda>b. b < 256) ns \<Longrightarrow> map (unat \<circ> (of_nat :: nat \<Rightarrow> byte)) ns = ns"
  by (induction ns) (simp_all add: unat_of_nat take_bit_nat_eq_self)

lemma bytes_decode_str_encode: "str_encode s = Inr bs \<Longrightarrow> bytes_decode bs = Inr s"
  using utf8_decode_encode_nat [of s]
  by (auto simp: str_encode_def bytes_decode_def unat_of_nat_bytes split: sum.splits)

lemma length_word32_bytes: "length (word32_bytes w) = 4"
  by (simp add: word32_bytes_def)

lemma length_sha1_digest: "length (sha1_digest st) = 20"
  by (cases st) (simp add: length_word32_bytes)

lemma length_concat_hex_byte: "length (concat (map hex_byte bs)) = 2 * length bs"
  by (induction bs) (simp_all add: hex_byte_def)

lemma length_sha1_hexdigest: "length (sha1_hexdigest m) = 40"
  by (simp add: sha1_hexdigest_def length_concat_hex_byte length_sha1_digest)

lemma hex_digit_lower: "d < 16 \<Longrightarrow> hex_digit d \<in> set (ascii ''0123456789abcdef'')"
proof -
  assume "d < 16"
  then have "d = 0 \<or> d = 1 \<or> d = 2 \<or> d = 3 \<or> d = 4 \<or> d = 5 \<or> d = 6 \<or> d = 7 \<or> d = 8
    \<or> d = 9 \<or> d = 10 \<or> d = 11 \<or> d = 12 \<or> d = 13 \<or> d = 14 \<or> d = 15" by arith
  then show ?thesis by (auto simp: hex_digit_def ascii_def)
qed

lemma hex_byte_lower: "set (hex_byte b) \<subseteq> set (ascii ''0123456789abcdef'')"
proof -
  have "unat b < 256" using unsigned_less [of b, where ?'a = nat] by simp
  then have "unat b div 16 < 16" "unat b mod 16 < 16" by simp_all
  then show ?thesis by (simp add: hex_byte_def hex_digit_lower del: set_map)
qed

lemma sha1_hexdigest_lower: "set (sha1_hexdigest m) \<subseteq> set (ascii ''0123456789abcdef'')"
  using hex_byte_lower by (auto simp: sha1_hexdigest_def)


subsection \<open>The digest of the example document\<close>

text \<open>
  SHA-1 run on the canonical text of the example document, one block: the padded
  block, its sixteen words, the eighty words of the schedule, the state after eighty
  rounds, and the digest.
\<close>

lemma sha1_extend_numeral:
  "sha1_extend (numeral k) ws =
     (let t = length ws in
      sha1_extend (pred_numeral k)
        (ws @ [rotl32 1 (ws ! (t - 3) XOR ws ! (t - 8) XOR ws ! (t - 14) XOR ws ! (t - 16))]))"
  by (simp add: numeral_eq_Suc)

lemma replicate_numeral: "replicate (numeral k) x = x # replicate (pred_numeral k) x"
  by (simp add: numeral_eq_Suc)

lemma sha1_pad_demo:
  "sha1_pad demo_manifest_bytes =
    [
     0x7B, 0x22, 0x72, 0x65, 0x77, 0x61, 0x72, 0x64, 0x22, 0x3A, 0x20, 0x35, 0x2C, 0x20, 0x22, 0x74,
     0x61, 0x73, 0x6B, 0x22, 0x3A, 0x20, 0x22, 0x6C, 0x61, 0x62, 0x65, 0x6C, 0x22, 0x7D, 0x80, 0x00,
     0x00, 0x00, 0x00, 0x00, 0x00, 0x00, 0x00, 0x00, 0x00, 0x00, 0x00, 0x00, 0x00, 0x00, 0x00, 0x00,
     0x00, 0x00, 0x00, 0x00, 0x00, 0x00, 0x00, 0x00, 0x00, 0x00, 0x00, 0x00, 0x00, 0x00, 0x00, 0xF0]"
  by (simp add: sha1_pad_def demo_manifest_bytes_def bytes_literal_def Let_def upt_conv_Cons
      replicate_numeral)

lemma sha1_words_demo:
  "map be32 (chunks 4
    [
     0x7B, 0x22, 0x72, 0x65, 0x77, 0x61, 0x72, 0x64, 0x22, 0x3A, 0x20, 0x35, 0x2C, 0x20, 0x22, 0x74,
     0x61, 0x73, 0x6B, 0x22, 0x3A, 0x20, 0x22, 0x6C, 0x61, 0x62, 0x65, 0x6C, 0x22, 0x7D, 0x80, 0x00,
     0x00, 0x00, 0x00, 0x00, 0x00, 0x00, 0x00, 0x00, 0x00, 0x00, 0x00, 0x00, 0x00, 0x00, 0x00, 0x00,
     0x00, 0x00, 0x00, 0x00, 0x00, 0x00, 0x00, 0x00, 0x00, 0x00, 0x00, 0x00, 0x00, 0x00, 0x00, 0xF0]) =
    [
     0x7B227265, 0x77617264, 0x223A2035, 0x2C202274, 0x61736B22, 0x3A20226C,
     0x6162656C, 0x227D8000, 0x00000000, 0x00000000, 0x00000000, 0x00000000,
     0x00000000, 0x00000000, 0x00000000, 0x000000F0]"
  by (simp add: be32_def)

lemma sha1_schedule_demo:
  "sha1_extend 64
    [
     0x7B227265, 0x77617264, 0x223A2035, 0x2C202274, 0x61736B22, 0x3A20226C,
     0x6162656C, 0x227D8000, 0x00000000, 0x00000000, 0x00000000, 0x00000000,
     0x00000000, 0x00000000, 0x00000000, 0x000000F0] =
    [
     0x7B227265, 0x77617264, 0x223A2035, 0x2C202274, 0x61736B22, 0x3A20226C,
     0x6162656C, 0x227D8000, 0x00000000, 0x00000000, 0x00000000, 0x00000000,
     0x00000000, 0x00000000, 0x00000000, 0x000000F0, 0xB230A4A0, 0xB682A020,
     0x869297CE, 0x48614971, 0x6D275CDD, 0x3D9E6B45, 0x5206583A, 0x9EB5B85A,
     0x1F5D9FCB, 0xC909F035, 0x304E5F28, 0xAE79AD74, 0x485D59D1, 0x1BA0693A,
     0x9C9EA3DC, 0xC0D482B6, 0x60BF8B3E, 0x56E97571, 0x365E2D1A, 0x767208FD,
     0x432A508E, 0x1DAB2E7F, 0x4F6ED9A1, 0xA88534AF, 0xA40ECB44, 0xFDEFE322,
     0xCD903E99, 0xCF4A0FEE, 0xD40C9342, 0x169FF6D4, 0xF80BFD5A, 0xD568A055,
     0xC8E13769, 0x4AFEC7E8, 0xDB19C6B0, 0xD8E43C0A, 0x256DBB0B, 0xF1505568,
     0x971FA76B, 0x4ADF99A7, 0xA05F2FB8, 0xDE89189F, 0x10B5E599, 0x42DDD511,
     0xAFC79B19, 0x4425CCE0, 0xCA517093, 0xF51CCA06, 0xEF042503, 0x0D8527DD,
     0x37BAA448, 0x08DB32E1, 0x20614148, 0x902148CF, 0xEB959543, 0x825614EC,
     0x9F9F4FDB, 0xF488FE20, 0x153D9C48, 0x2378C997, 0x62FEA9C5, 0x684BA4C2,
     0xDB701289, 0x3062A1E4]"
  apply (subst sha1_extend_numeral, simp add: rotl32_def Let_def)+
  done

lemma sha1_rounds_demo:
  "foldl sha1_round (0x67452301, 0xEFCDAB89, 0x98BADCFE, 0x10325476, 0xC3D2E1F0)
     (zip [0..<80]
    [
     0x7B227265, 0x77617264, 0x223A2035, 0x2C202274, 0x61736B22, 0x3A20226C,
     0x6162656C, 0x227D8000, 0x00000000, 0x00000000, 0x00000000, 0x00000000,
     0x00000000, 0x00000000, 0x00000000, 0x000000F0, 0xB230A4A0, 0xB682A020,
     0x869297CE, 0x48614971, 0x6D275CDD, 0x3D9E6B45, 0x5206583A, 0x9EB5B85A,
     0x1F5D9FCB, 0xC909F035, 0x304E5F28, 0xAE79AD74, 0x485D59D1, 0x1BA0693A,
     0x9C9EA3DC, 0xC0D482B6, 0x60BF8B3E, 0x56E97571, 0x365E2D1A, 0x767208FD,
     0x432A508E, 0x1DAB2E7F, 0x4F6ED9A1, 0xA88534AF, 0xA40ECB44, 0xFDEFE322,
     0xCD903E99, 0xCF4A0FEE, 0xD40C9342, 0x169FF6D4, 0xF80BFD5A, 0xD568A055,
     0xC8E13769, 0x4AFEC7E8, 0xDB19C6B0, 0xD8E43C0A, 0x256DBB0B, 0xF1505568,
     0x971FA76B, 0x4ADF99A7, 0xA05F2FB8, 0xDE89189F, 0x10B5E599, 0x42DDD511,
     0xAFC79B19, 0x4425CCE0, 0xCA517093, 0xF51CCA06, 0xEF042503, 0x0D8527DD,
     0x37BAA448, 0x08DB32E1, 0x20614148, 0x902148CF, 0xEB959543, 0x825614EC,
     0x9F9F4FDB, 0xF488FE20, 0x153D9C48, 0x2378C997, 0x62FEA9C5, 0x684BA4C2,
     0xDB701289, 0x3062A1E4]) =
    (0x6E30384F, 0x4134156B, 0x368BE686, 0x109C3F62, 0x0E221AF0)"
  by (simp add: upt_conv_Cons rotl32_def)

lemma sha1_demo: "sha1 demo_manifest_bytes = (0xD5755B50, 0x3101C0F4, 0xCF46C384, 0x20CE93D8, 0xD1F4FCE0)"
proof -
  have "sha1 demo_manifest_bytes =
      sha1_block (0x67452301, 0xEFCDAB89, 0x98BADCFE, 0x10325476, 0xC3D2E1F0)
    [
     0x7B, 0x22, 0x72, 0x65, 0x77, 0x61, 0x72, 0x64, 0x22, 0x3A, 0x20, 0x35, 0x2C, 0x20, 0x22, 0x74,
     0x61, 0x73, 0x6B, 0x22, 0x3A, 0x20, 0x22, 0x6C, 0x61, 0x62, 0x65, 0x6C, 0x22, 0x7D, 0x80, 0x00,
     0x00, 0x00, 0x00, 0x00, 0x00, 0x00, 0x00, 0x00, 0x00, 0x00, 0x00, 0x00, 0x00, 0x00, 0x00, 0x00,
     0x00, 0x00, 0x00, 0x00, 0x00, 0x00, 0x00, 0x00, 0x00, 0x00, 0x00, 0x00, 0x00, 0x00, 0x00, 0xF0]"
    by (simp add: sha1_def sha1_pad_demo del: sha1_block.simps)
  also have "\<dots> = (0xD5755B50, 0x3101C0F4, 0xCF46C384, 0x20CE93D8, 0xD1F4FCE0)"
    by (simp only: sha1_block.simps sha1_words_demo sha1_schedule_demo Let_def
        sha1_rounds_demo prod.case) simp
  finally show ?thesis .
qed

lemma sha1_hexdigest_demo:
  "sha1_hexdigest demo_manifest_bytes = ascii ''d5755b503101c0f4cf46c38420ce93d8d1f4fce0''"
  by (simp add: sha1_hexdigest_def sha1_demo word32_bytes_def upt_conv_Cons hex_byte_def
      hex_digit_def ascii_def)

section \<open>What \<open>upload\<close> and \<open>download\<close> return\<close>

text \<open>
  The value of each call, with the handlers and the logging removed: \<open>bind_exn\<close>
  passes the first exception on unchanged. In the object-store branch of \<open>upload\<close>
  the \<open>try\<close> block does not contribute to the value at all.
\<close>

lemmas io_defs = return_io_def raise_io_def lift_io_def bind_io_def try_except_def LOG_def sent_def

lemmas service_defs = ipfshttpclient_connect_def add_bytes_def cat_def boto3_client_def
  put_object_def get_object_def urandom_def

lemma u_encrypt_eq:
  "u_encrypt E public_key msg w =
     (case bind_exn (hex_decode public_key) (keys_PublicKey E) of
        Inl e \<Rightarrow> (Inl e, w)
      | Inr pub_key \<Rightarrow>
          (case str_encode msg of
             Inl e \<Rightarrow> (Inl e, w)
           | Inr msg_bytes \<Rightarrow>
               (ecies_encrypt E (entropy w (draws w)) msg_bytes pub_key (SHARED_MAC_DATA E),
                w\<lparr>draws := Suc (draws w)\<rparr>)))"
  by (simp add: u_encrypt_def io_defs urandom_def split: sum.splits)

lemma fst_u_encrypt_cong:
  "entropy w' = entropy w \<Longrightarrow> draws w' = draws w \<Longrightarrow>
   fst (u_encrypt E public_key msg w') = fst (u_encrypt E public_key msg w)"
  by (simp add: u_encrypt_eq split: sum.splits)

lemma upload_s3_result:
  "s3_default s3 \<Longrightarrow>
   fst (upload E msg public_key s3 w) =
     bind_exn (json_dumps E msg True)
       (\<lambda>manifest. bind_exn (str_encode manifest)
          (\<lambda>manifest_bytes. Inr (sha1_hexdigest manifest_bytes, sha1_hexdigest manifest_bytes)))"
  by (simp add: upload_def io_defs bind_exn_def Let_def split: sum.splits prod.splits)

lemma upload_ipfs_result:
  "\<not> s3_default s3 \<Longrightarrow>
   fst (upload E msg public_key s3 w) =
     bind_exn (json_dumps E msg True)
       (\<lambda>manifest. bind_exn (str_encode manifest)
          (\<lambda>manifest_bytes.
             bind_exn (fst (ipfshttpclient_connect (IPFS_HOST E) (IPFS_PORT E) w))
               (\<lambda>client. bind_exn (fst (u_encrypt E public_key manifest w))
                  (\<lambda>encrypted_msg. bind_exn (fst (add_bytes E client encrypted_msg w))
                     (\<lambda>key. Inr (sha1_hexdigest manifest_bytes, key))))))"
  by (simp add: upload_def u_connect_def io_defs service_defs u_encrypt_eq bind_exn_def Let_def
      split: sum.splits prod.splits option.splits)

lemma download_ipfs_result:
  "\<not> s3_default s3 \<Longrightarrow>
   fst (download E key private_key s3 w) =
     bind_exn (fst (ipfshttpclient_connect (IPFS_HOST E) (IPFS_PORT E) w))
       (\<lambda>client. bind_exn (fst (cat client key 30 w))
          (\<lambda>ciphertext. bind_exn (u_decrypt E private_key ciphertext)
             (\<lambda>msg. json_loads E msg)))"
  by (auto simp: download_def u_connect_def io_defs service_defs bind_exn_def
      split: sum.splits prod.splits option.splits)

lemma download_s3_result:
  "s3_default s3 \<Longrightarrow>
   fst (download E key private_key s3 w) =
     bind_exn (fst (boto3_client w))
       (\<lambda>client. bind_exn (fst (get_object client (ESCROW_BUCKETNAME E) key w))
          (\<lambda>ciphertext. bind_exn (u_decrypt E private_key ciphertext)
             (\<lambda>msg. json_loads E msg)))"
  by (auto simp: download_def u_connect_s3_def io_defs service_defs bind_exn_def
      split: sum.splits prod.splits option.splits)

lemma upload_s3_world:
  assumes "s3_default s3" "json_dumps E msg True = Inr manifest"
    "str_encode manifest = Inr manifest_bytes"
    "s3_client_fault w = None" "s3_put_fault w = None"
    "fst (u_encrypt E public_key manifest w) = Inr encrypted_msg"
  shows "snd (upload E msg public_key s3 w) =
           w\<lparr>draws := Suc (draws w),
             s3_objects := (s3_objects w)
                ((ESCROW_BUCKETNAME E, sha1_hexdigest manifest_bytes) \<mapsto> encrypted_msg),
             requests := requests w @
                [S3Client,
                 S3PutObject (ESCROW_BUCKETNAME E) (sha1_hexdigest manifest_bytes) encrypted_msg],
             logged := logged w @
                [LogRecord Debug ''Uploaded to S3, used hash as key: {hash_}''
                   [ArgStr (sha1_hexdigest manifest_bytes)]]\<rparr>"
  using assms
  by (auto simp: upload_def u_connect_s3_def io_defs service_defs u_encrypt_eq Let_def
      split: sum.splits prod.splits option.splits)

lemma upload_s3_put_fault_world:
  assumes "s3_default s3" "s3_put_fault w = Some e"
  shows "s3_objects (snd (upload E msg public_key s3 w)) = s3_objects w
         \<and> ipfs_blocks (snd (upload E msg public_key s3 w)) = ipfs_blocks w"
  using assms
  by (auto simp: upload_def u_connect_s3_def io_defs service_defs u_encrypt_eq Let_def
      split: sum.splits prod.splits option.splits)

lemma upload_ipfs_world:
  assumes "\<not> s3_default s3" "json_dumps E msg True = Inr manifest"
    "str_encode manifest = Inr manifest_bytes"
    "ipfs_connect_fault w = None" "ipfs_add_fault w = None"
    "fst (u_encrypt E public_key manifest w) = Inr encrypted_msg"
  shows "upload E msg public_key s3 w =
           (Inr (sha1_hexdigest manifest_bytes, ipfs_key E encrypted_msg),
            w\<lparr>draws := Suc (draws w),
              ipfs_blocks := (ipfs_blocks w)(ipfs_key E encrypted_msg \<mapsto> encrypted_msg),
              requests := requests w @
                 [IpfsConnect (IPFS_HOST E) (IPFS_PORT E), IpfsAddBytes encrypted_msg],
              logged := logged w @
                 [LogRecord Debug ''Uploaded to IPFS, key: {key}''
                    [ArgStr (ipfs_key E encrypted_msg)]]\<rparr>)"
  using assms
  by (auto simp: upload_def u_connect_def io_defs service_defs u_encrypt_eq Let_def
      split: sum.splits prod.splits option.splits)

lemma upload_ipfs_stored:
  assumes "\<not> s3_default s3" "fst (upload E msg public_key s3 w) = Inr (hash, key)"
  shows "\<exists>c. key = ipfs_key E c \<and> ipfs_blocks (snd (upload E msg public_key s3 w)) key = Some c"
  using assms
  by (auto simp: upload_def u_connect_def io_defs service_defs u_encrypt_eq Let_def
      split: sum.splits prod.splits option.splits)

lemma upload_s3_eq:
  assumes "s3_default s3" "json_dumps E msg True = Inr manifest"
    "str_encode manifest = Inr manifest_bytes"
    "s3_client_fault w = None" "s3_put_fault w = None"
    "fst (u_encrypt E public_key manifest w) = Inr encrypted_msg"
  shows "upload E msg public_key s3 w =
           (Inr (sha1_hexdigest manifest_bytes, sha1_hexdigest manifest_bytes),
            w\<lparr>draws := Suc (draws w),
             s3_objects := (s3_objects w)
                ((ESCROW_BUCKETNAME E, sha1_hexdigest manifest_bytes) \<mapsto> encrypted_msg),
             requests := requests w @
                [S3Client,
                 S3PutObject (ESCROW_BUCKETNAME E) (sha1_hexdigest manifest_bytes) encrypted_msg],
             logged := logged w @
                [LogRecord Debug ''Uploaded to S3, used hash as key: {hash_}''
                   [ArgStr (sha1_hexdigest manifest_bytes)]]\<rparr>)"
  using upload_s3_world [OF assms] upload_s3_result [OF assms(1), of E msg public_key w] assms(2,3)
  by (simp add: prod_eq_iff bind_exn_def)

lemma upload_ipfs_fault_raises:
  assumes "ipfs_connect_fault w = Some e \<or> ipfs_add_fault w = Some e"
  shows "isl (fst (upload E msg public_key (Some False) w))
         \<and> ipfs_blocks (snd (upload E msg public_key (Some False) w)) = ipfs_blocks w"
  using assms
  by (auto simp: upload_def u_connect_def io_defs service_defs u_encrypt_eq Let_def s3_default_def
      split: sum.splits prod.splits option.splits)

section \<open>The encryption scheme and the small instance\<close>

lemma spec_round_trip:
  assumes "prims_ok P"
  shows "\<exists>c. spec_encrypt P r m (public_key_of P K) smd = Inr c \<and> spec_decrypt P c K smd = Inr m"
proof -
  have agree: "key_agreement P K (public_key_of P r) = key_agreement P r (public_key_of P K)"
    using assms by (simp add: prims_ok_def)
  obtain ke km where k: "derive_keys P (key_agreement P r (public_key_of P K)) = (ke, km)"
    by (cases "derive_keys P (key_agreement P r (public_key_of P K))")
  show ?thesis
    using assms agree k
    by (simp add: spec_encrypt_def spec_decrypt_def prims_ok_def Let_def)
qed

lemma spec_encrypt_embeds_ephemeral:
  assumes "prims_ok P"
    and "spec_encrypt P r1 m pk smd = Inr c1" and "spec_encrypt P r2 m pk smd = Inr c2"
    and "public_key_of P r1 \<noteq> public_key_of P r2"
  shows "c1 \<noteq> c2"
proof
  assume "c1 = c2"
  then have "wire_decode P c1 = wire_decode P c2" by simp
  moreover have "\<exists>t p. wire_decode P c1 = Some (public_key_of P r1, t, p)"
    using assms(1,2) by (auto simp: spec_encrypt_def prims_ok_def Let_def split: prod.splits)
  moreover have "\<exists>t p. wire_decode P c2 = Some (public_key_of P r2, t, p)"
    using assms(1,3) by (auto simp: spec_encrypt_def prims_ok_def Let_def split: prod.splits)
  ultimately show False using assms(4) by auto
qed

lemma u_decrypt_u_encrypt:
  assumes "valid_key_pair E public_key private_key" and "str_encode msg = Inr msg_bytes"
  shows "\<exists>c. u_encrypt E public_key msg w = (Inr c, w\<lparr>draws := Suc (draws w)\<rparr>)
             \<and> u_decrypt E private_key c = Inr msg"
proof -
  from assms(1) obtain P K where
    P: "bind_exn (hex_decode public_key) (keys_PublicKey E) = Inr P" and
    K: "bind_exn (hex_decode private_key) (keys_PrivateKey E) = Inr K" and
    rt: "\<And>r m. \<exists>c. ecies_encrypt E r m P (SHARED_MAC_DATA E) = Inr c \<and>
                   ecies_decrypt E c K (SHARED_MAC_DATA E) = Inr m"
    unfolding valid_key_pair_def by blast
  from rt [of "entropy w (draws w)" msg_bytes] obtain c where
    c: "ecies_encrypt E (entropy w (draws w)) msg_bytes P (SHARED_MAC_DATA E) = Inr c"
       "ecies_decrypt E c K (SHARED_MAC_DATA E) = Inr msg_bytes"
    by blast
  have "u_encrypt E public_key msg w = (Inr c, w\<lparr>draws := Suc (draws w)\<rparr>)"
    using P assms(2) c(1) by (simp add: u_encrypt_eq)
  moreover have "u_decrypt E private_key c = Inr msg"
    using K c(2) bytes_decode_str_encode [OF assms(2)]
    by (simp add: u_decrypt_def bind_exn_def)
  ultimately show ?thesis by blast
qed

lemma str_encode_ascii:
  "list_all (\<lambda>c. (of_char c :: nat) < 128) s \<Longrightarrow> str_encode (ascii s) = Inr (bytes_literal s)"
proof -
  have "list_all (\<lambda>c. (of_char c :: nat) < 128) s \<Longrightarrow>
        utf8_encode_nat (map of_char s) = Inr (map of_char s)"
    by (induction s) (simp_all add: utf8_encode_cp_def)
  then show "list_all (\<lambda>c. (of_char c :: nat) < 128) s \<Longrightarrow> ?thesis"
    by (simp add: str_encode_def ascii_def bytes_literal_def)
qed

lemma demo_dumps_manifest: "json_dumps demo_env Task_label_reward_5 True = Inr demo_manifest"
  by (simp add: demo_env_def demo_dumps_def demo_manifest_def)

lemma demo_dumps_fails: "json_dumps demo_env Not_serializable True = Inl TypeError"
  by (simp add: demo_env_def demo_dumps_def)

lemma demo_encode_manifest: "str_encode demo_manifest = Inr demo_manifest_bytes"
  unfolding demo_manifest_def demo_manifest_bytes_def
  by (rule str_encode_ascii) simp

lemma demo_loads_manifest: "json_loads demo_env demo_manifest = Inr Task_label_reward_5"
  by (simp add: demo_env_def demo_loads_def demo_manifest_def)

lemma demo_public_key_decodes:
  "bind_exn (hex_decode demo_public_key) (keys_PublicKey demo_env) = Inr 0x15"
  by (simp add: demo_public_key_def bytes_literal_def hex_decode_def hex_val_def bind_exn_def
      demo_env_def demo_key_def)

lemma demo_private_key_decodes:
  "bind_exn (hex_decode demo_private_key) (keys_PrivateKey demo_env) = Inr 0x07"
  by (simp add: demo_private_key_def bytes_literal_def hex_decode_def hex_val_def bind_exn_def
      demo_env_def demo_key_def)

lemma demo_prims_ok: "prims_ok demo_prims"
  by (simp add: prims_ok_def demo_prims_def demo_wire_decode_def comp_def)

lemma demo_valid_key_pair: "valid_key_pair demo_env demo_public_key demo_private_key"
proof -
  have pk: "(0x15 :: byte) = public_key_of demo_prims 0x07"
    by (simp add: demo_prims_def)
  have "\<exists>c. ecies_encrypt demo_env r m 0x15 (SHARED_MAC_DATA demo_env) = Inr c \<and>
            ecies_decrypt demo_env c 0x07 (SHARED_MAC_DATA demo_env) = Inr m" for r m
    using spec_round_trip [OF demo_prims_ok, of r m "0x07" "SHARED_MAC_DATA demo_env"]
    unfolding pk by (simp add: demo_env_def)
  then show ?thesis
    unfolding valid_key_pair_def
    using demo_public_key_decodes demo_private_key_decodes by blast
qed

lemma demo_env_scheme:
  "ecies_encrypt demo_env = spec_encrypt demo_prims"
  "ecies_decrypt demo_env = spec_decrypt demo_prims"
  by (simp_all add: demo_env_def)

lemma demo_world_fields:
  "ipfs_connect_fault demo_world = None" "ipfs_add_fault demo_world = None"
  "ipfs_cat_fault demo_world = None" "s3_client_fault demo_world = None"
  "s3_put_fault demo_world = None" "s3_get_fault demo_world = None"
  "draws demo_world = 0" "entropy demo_world n = of_nat n + 1"
  by (simp_all add: demo_world_def)

lemma demo_encrypt:
  "fst (u_encrypt demo_env demo_public_key demo_manifest demo_world)
     = spec_encrypt demo_prims 1 demo_manifest_bytes 0x15 (SHARED_MAC_DATA demo_env)"
  by (simp add: u_encrypt_eq demo_public_key_decodes demo_encode_manifest demo_world_fields
      demo_env_scheme)

lemma demo_spec_encrypt:
  "spec_encrypt demo_prims 1 demo_manifest_bytes 0x15 (SHARED_MAC_DATA demo_env) = Inr demo_ciphertext"
  by (simp add: spec_encrypt_def demo_prims_def demo_ciphertext_def Let_def)

lemma demo_json_compatible: "json_compatible demo_env Task_label_reward_5"
  unfolding json_compatible_def
  using demo_dumps_manifest demo_encode_manifest demo_loads_manifest by blast

lemma demo_healthy: "healthy demo_world"
  by (simp add: healthy_def demo_world_fields)

subsection \<open>Decryption in the scheme\<close>









subsection \<open>The instance with a collision-free tag\<close>














subsection \<open>A public key that is no hexadecimal string\<close>

text \<open>
  With the public key \<open>b'1'\<close> the encryption raises the codec's error. The
  content-store branch of \<open>upload\<close> raises it; the object-store branch returns the
  pair of hashes and stores nothing.
\<close>

lemma malformed_key_branches:
  "fst (u_encrypt demo_env (bytes_literal ''1'') demo_manifest demo_world)
     = Inl (BinasciiError ''decoding with 'hex' codec failed (Error: Odd-length string)'')
   \<and> fst (upload demo_env Task_label_reward_5 (bytes_literal ''1'') (Some False) demo_world)
     = Inl (BinasciiError ''decoding with 'hex' codec failed (Error: Odd-length string)'')
   \<and> fst (upload demo_env Task_label_reward_5 (bytes_literal ''1'') (Some True) demo_world)
     = Inr (sha1_hexdigest demo_manifest_bytes, sha1_hexdigest demo_manifest_bytes)
   \<and> s3_objects (snd (upload demo_env Task_label_reward_5 (bytes_literal ''1'') (Some True)
        demo_world)) = s3_objects demo_world"
proof -
  have t: "s3_default (Some True)" and f: "\<not> s3_default (Some False)"
    by (simp_all add: s3_default_def)
  have d: "fst (u_encrypt demo_env (bytes_literal ''1'') demo_manifest v)
       = Inl (BinasciiError ''decoding with 'hex' codec failed (Error: Odd-length string)'')" for v
    by (simp add: u_encrypt_eq bytes_literal_def hex_decode_def bind_exn_def)
  have i: "fst (upload demo_env Task_label_reward_5 (bytes_literal ''1'') (Some False) demo_world)
     = Inl (BinasciiError ''decoding with 'hex' codec failed (Error: Odd-length string)'')"
    by (simp add: upload_ipfs_result [OF f] demo_dumps_manifest demo_encode_manifest d
        ipfshttpclient_connect_def demo_world_fields bind_exn_def)
  have s: "fst (upload demo_env Task_label_reward_5 (bytes_literal ''1'') (Some True) demo_world)
     = Inr (sha1_hexdigest demo_manifest_bytes, sha1_hexdigest demo_manifest_bytes)"
    by (simp add: upload_s3_result [OF t] demo_dumps_manifest demo_encode_manifest bind_exn_def)
  have st: "s3_objects (snd (upload demo_env Task_label_reward_5 (bytes_literal ''1'') (Some True)
        demo_world)) = s3_objects demo_world"
    using demo_dumps_manifest demo_encode_manifest
    by (simp add: upload_def u_connect_s3_def io_defs service_defs u_encrypt_eq Let_def
        s3_default_def bytes_literal_def hex_decode_def bind_exn_def demo_world_fields)
  show ?thesis using d i s st by blast
qed

section \<open>Properties of the module\<close>

text \<open>
  C1. For a document that \<open>json\<close> writes and reads back, and a key pair that the
  key constructors accept and for which the encryption library undoes its own
  encryption, decrypting the encryption of the canonical text gives the canonical text
  back, whatever random bytes the encryption draws; and when no service call fails,
  downloading with the private key what \<open>upload\<close> returned as backend key gives a
  document equal to the one uploaded, with the object store and with the content store.
\<close>

theorem round_trip:
  assumes "valid_key_pair E public_key private_key" and "json_compatible E D" and "healthy w"
  shows "(\<exists>manifest encrypted_msg.
            json_dumps E D True = Inr manifest
            \<and> fst (u_encrypt E public_key manifest v) = Inr encrypted_msg
            \<and> u_decrypt E private_key encrypted_msg = Inr manifest)
         \<and> fst (bind_io (upload E D public_key (Some True))
                   (\<lambda>(hash, key). download E key private_key (Some True)) w) = Inr D
         \<and> fst (bind_io (upload E D public_key (Some False))
                   (\<lambda>(hash, key). download E key private_key (Some False)) w) = Inr D"
proof -
  from assms(2) obtain manifest manifest_bytes where
    m: "json_dumps E D True = Inr manifest" "str_encode manifest = Inr manifest_bytes"
       "json_loads E manifest = Inr D"
    unfolding json_compatible_def by blast
  from u_decrypt_u_encrypt [OF assms(1) m(2), of w] obtain c where
    c: "u_encrypt E public_key manifest w = (Inr c, w\<lparr>draws := Suc (draws w)\<rparr>)"
       "u_decrypt E private_key c = Inr manifest"
    by blast
  have enc: "fst (u_encrypt E public_key manifest w) = Inr c"
    using c(1) by simp
  have h: "ipfs_connect_fault w = None" "ipfs_add_fault w = None" "ipfs_cat_fault w = None"
    "s3_client_fault w = None" "s3_put_fault w = None" "s3_get_fault w = None"
    using assms(3) by (simp_all add: healthy_def)
  have t: "s3_default (Some True)" and f: "\<not> s3_default (Some False)"
    by (simp_all add: s3_default_def)
  from u_decrypt_u_encrypt [OF assms(1) m(2), of v] obtain c' where
    "fst (u_encrypt E public_key manifest v) = Inr c'" "u_decrypt E private_key c' = Inr manifest"
    by auto
  then have first: "\<exists>manifest encrypted_msg.
            json_dumps E D True = Inr manifest
            \<and> fst (u_encrypt E public_key manifest v) = Inr encrypted_msg
            \<and> u_decrypt E private_key encrypted_msg = Inr manifest"
    using m(1) by blast
  have s3: "fst (bind_io (upload E D public_key (Some True))
                   (\<lambda>(hash, key). download E key private_key (Some True)) w) = Inr D"
    using h c(2) m(3)
    by (simp add: bind_io_def upload_s3_eq [OF t m(1,2) h(4,5) enc] download_s3_result [OF t]
        service_defs sent_def bind_exn_def)
  have ipfs: "fst (bind_io (upload E D public_key (Some False))
                   (\<lambda>(hash, key). download E key private_key (Some False)) w) = Inr D"
    using h c(2) m(3)
    by (simp add: bind_io_def upload_ipfs_world [OF f m(1,2) h(1,2) enc] download_ipfs_result [OF f]
        service_defs sent_def bind_exn_def)
  show ?thesis using first s3 ipfs by blast
qed

theorem round_trip_witness:
  "valid_key_pair demo_env demo_public_key demo_private_key
   \<and> json_compatible demo_env Task_label_reward_5
   \<and> healthy demo_world
   \<and> (\<exists>manifest encrypted_msg.
         json_dumps demo_env Task_label_reward_5 True = Inr manifest
         \<and> fst (u_encrypt demo_env demo_public_key manifest demo_world) = Inr encrypted_msg
         \<and> u_decrypt demo_env demo_private_key encrypted_msg = Inr manifest)
   \<and> fst (bind_io (upload demo_env Task_label_reward_5 demo_public_key (Some True))
             (\<lambda>(hash, key). download demo_env key demo_private_key (Some True)) demo_world)
       = Inr Task_label_reward_5
   \<and> fst (bind_io (upload demo_env Task_label_reward_5 demo_public_key (Some False))
             (\<lambda>(hash, key). download demo_env key demo_private_key (Some False)) demo_world)
       = Inr Task_label_reward_5"
  using demo_valid_key_pair demo_json_compatible demo_healthy
    round_trip [OF demo_valid_key_pair demo_json_compatible demo_healthy, of demo_world]
  by blast





text \<open>
  C3. When \<open>upload\<close> runs with the object-store backend and the put of the ciphertext
  fails, it still returns the content identifier as computed from the document: the
  SHA-1 hex digest of the encoded canonical text, twice, which is the same value it
  returns when the put succeeds. Nothing is stored.
\<close>

theorem upload_s3_put_failure:
  assumes "s3_default s3" and "json_dumps E msg True = Inr manifest"
    and "str_encode manifest = Inr manifest_bytes" and "s3_put_fault w = Some e"
  shows "fst (upload E msg public_key s3 w)
           = Inr (sha1_hexdigest manifest_bytes, sha1_hexdigest manifest_bytes)
         \<and> fst (upload E msg public_key s3 w)
           = fst (upload E msg public_key s3 (w\<lparr>s3_put_fault := None\<rparr>))
         \<and> s3_objects (snd (upload E msg public_key s3 w)) = s3_objects w"
  using assms upload_s3_put_fault_world [of s3 w e E msg public_key]
  by (simp add: upload_s3_result bind_exn_def)

theorem upload_s3_put_failure_witness:
  "s3_default None \<and> json_dumps demo_env Task_label_reward_5 True = Inr demo_manifest
   \<and> str_encode demo_manifest = Inr demo_manifest_bytes
   \<and> s3_put_fault put_fails = Some EndpointConnectionError
   \<and> fst (upload demo_env Task_label_reward_5 demo_public_key None put_fails)
       = Inr (sha1_hexdigest demo_manifest_bytes, sha1_hexdigest demo_manifest_bytes)
   \<and> fst (upload demo_env Task_label_reward_5 demo_public_key None put_fails)
       = fst (upload demo_env Task_label_reward_5 demo_public_key None (put_fails\<lparr>s3_put_fault := None\<rparr>))
   \<and> s3_objects (snd (upload demo_env Task_label_reward_5 demo_public_key None put_fails))
       = s3_objects put_fails"
proof -
  have h: "s3_default None" "s3_put_fault put_fails = Some EndpointConnectionError"
    by (simp_all add: s3_default_def put_fails_def)
  show ?thesis
    using h demo_dumps_manifest demo_encode_manifest
      upload_s3_put_failure [OF h(1) demo_dumps_manifest demo_encode_manifest h(2), of demo_public_key]
    by blast
qed


text \<open>
  C4. The content identifier that \<open>upload\<close> returns is the SHA-1 hex digest of the
  UTF-8 encoding of \<open>json.dumps(msg, sort_keys=True)\<close>: forty characters, each one
  of \<open>0123456789abcdef\<close>. Any other successful call for the same document returns
  the same identifier, whatever its public key, its backend flag and the state of the
  world.
\<close>

theorem upload_content_identifier:
  assumes "fst (upload E msg public_key s3 w) = Inr (hash, key)"
  shows "(\<exists>manifest manifest_bytes.
            json_dumps E msg True = Inr manifest \<and> str_encode manifest = Inr manifest_bytes \<and>
            hash = sha1_hexdigest manifest_bytes)
         \<and> length hash = 40
         \<and> set hash \<subseteq> set (ascii ''0123456789abcdef'')
         \<and> (fst (upload E msg public_key' s3' w') = Inr (hash', key') \<longrightarrow> hash' = hash)"
proof -
  have *: "\<exists>manifest manifest_bytes.
            json_dumps E msg True = Inr manifest \<and> str_encode manifest = Inr manifest_bytes \<and>
            h = sha1_hexdigest manifest_bytes"
    if "fst (upload E msg pk b v) = Inr (h, k)" for pk b v h k
    using that
    by (cases "s3_default b")
      (auto simp: upload_s3_result upload_ipfs_result bind_exn_def split: sum.splits)
  from * [OF assms] obtain manifest manifest_bytes where
    m: "json_dumps E msg True = Inr manifest" "str_encode manifest = Inr manifest_bytes"
      "hash = sha1_hexdigest manifest_bytes"
    by blast
  have "hash' = hash" if "fst (upload E msg public_key' s3' w') = Inr (hash', key')"
    using * [OF that] m by auto
  then show ?thesis
    using m length_sha1_hexdigest sha1_hexdigest_lower by blast
qed

theorem upload_content_identifier_witness:
  "fst (upload demo_env Task_label_reward_5 demo_public_key None put_fails)
     = Inr (sha1_hexdigest demo_manifest_bytes, sha1_hexdigest demo_manifest_bytes)
   \<and> (\<exists>manifest manifest_bytes.
         json_dumps demo_env Task_label_reward_5 True = Inr manifest
         \<and> str_encode manifest = Inr manifest_bytes
         \<and> sha1_hexdigest demo_manifest_bytes = sha1_hexdigest manifest_bytes)
   \<and> length (sha1_hexdigest demo_manifest_bytes) = 40
   \<and> set (sha1_hexdigest demo_manifest_bytes) \<subseteq> set (ascii ''0123456789abcdef'')
   \<and> fst (upload demo_env Task_label_reward_5 demo_public_key (Some False) demo_world)
       = Inr (sha1_hexdigest demo_manifest_bytes, ipfs_key demo_env demo_ciphertext)
   \<and> sha1_hexdigest demo_manifest_bytes = ascii ''d5755b503101c0f4cf46c38420ce93d8d1f4fce0''"
proof -
  have f: "\<not> s3_default (Some False)" and t: "s3_default None"
    by (simp_all add: s3_default_def)
  have enc: "fst (u_encrypt demo_env demo_public_key demo_manifest demo_world) = Inr demo_ciphertext"
    by (simp add: demo_encrypt demo_spec_encrypt)
  have h1: "fst (upload demo_env Task_label_reward_5 demo_public_key None put_fails)
     = Inr (sha1_hexdigest demo_manifest_bytes, sha1_hexdigest demo_manifest_bytes)"
    by (simp add: upload_s3_result [OF t] demo_dumps_manifest demo_encode_manifest bind_exn_def)
  have h2: "fst (upload demo_env Task_label_reward_5 demo_public_key (Some False) demo_world)
       = Inr (sha1_hexdigest demo_manifest_bytes, ipfs_key demo_env demo_ciphertext)"
    using upload_ipfs_world [OF f demo_dumps_manifest demo_encode_manifest
        demo_world_fields(1) demo_world_fields(2) enc]
    by simp
  show ?thesis
    using h1 h2 sha1_hexdigest_demo
      upload_content_identifier [OF h1, of demo_public_key "Some False" demo_world]
    by blast
qed

text \<open>
  C5. With the object-store backend the backend key equals the content identifier:
  whatever pair \<open>upload\<close> returns has two equal components, and when the client is
  created, the encryption succeeds and the put succeeds, the ciphertext is stored in
  the bucket under the content hash.
\<close>

theorem upload_s3_backend_key:
  assumes "s3_default s3"
  shows "(fst (upload E msg public_key s3 w) = Inr (hash, key) \<longrightarrow> key = hash)
         \<and> (json_dumps E msg True = Inr manifest \<longrightarrow> str_encode manifest = Inr manifest_bytes \<longrightarrow>
              s3_client_fault w = None \<longrightarrow> s3_put_fault w = None \<longrightarrow>
              fst (u_encrypt E public_key manifest w) = Inr encrypted_msg \<longrightarrow>
              fst (upload E msg public_key s3 w)
                = Inr (sha1_hexdigest manifest_bytes, sha1_hexdigest manifest_bytes)
              \<and> s3_objects (snd (upload E msg public_key s3 w))
                   (ESCROW_BUCKETNAME E, sha1_hexdigest manifest_bytes) = Some encrypted_msg)"
proof (intro conjI impI)
  assume "fst (upload E msg public_key s3 w) = Inr (hash, key)"
  then show "key = hash"
    using assms by (auto simp: upload_s3_result bind_exn_def split: sum.splits)
next
  assume a: "json_dumps E msg True = Inr manifest" "str_encode manifest = Inr manifest_bytes"
    "s3_client_fault w = None" "s3_put_fault w = None"
    "fst (u_encrypt E public_key manifest w) = Inr encrypted_msg"
  show "fst (upload E msg public_key s3 w)
          = Inr (sha1_hexdigest manifest_bytes, sha1_hexdigest manifest_bytes)"
    using assms a by (simp add: upload_s3_result bind_exn_def)
  show "s3_objects (snd (upload E msg public_key s3 w))
          (ESCROW_BUCKETNAME E, sha1_hexdigest manifest_bytes) = Some encrypted_msg"
    using upload_s3_world [OF assms a] by simp
qed

theorem upload_s3_backend_key_witness:
  "s3_default None
   \<and> fst (upload demo_env Task_label_reward_5 demo_public_key None demo_world)
       = Inr (sha1_hexdigest demo_manifest_bytes, sha1_hexdigest demo_manifest_bytes)
   \<and> sha1_hexdigest demo_manifest_bytes = sha1_hexdigest demo_manifest_bytes
   \<and> json_dumps demo_env Task_label_reward_5 True = Inr demo_manifest
   \<and> str_encode demo_manifest = Inr demo_manifest_bytes
   \<and> s3_client_fault demo_world = None \<and> s3_put_fault demo_world = None
   \<and> fst (u_encrypt demo_env demo_public_key demo_manifest demo_world) = Inr demo_ciphertext
   \<and> s3_objects (snd (upload demo_env Task_label_reward_5 demo_public_key None demo_world))
        (ESCROW_BUCKETNAME demo_env, sha1_hexdigest demo_manifest_bytes) = Some demo_ciphertext"
proof -
  have h: "s3_default None" "s3_client_fault demo_world = None" "s3_put_fault demo_world = None"
    by (simp_all add: s3_default_def demo_world_def)
  have e: "fst (u_encrypt demo_env demo_public_key demo_manifest demo_world) = Inr demo_ciphertext"
    by (simp add: demo_encrypt demo_spec_encrypt)
  show ?thesis
    using h e demo_dumps_manifest demo_encode_manifest
      upload_s3_backend_key [OF h(1), of demo_env Task_label_reward_5 demo_public_key demo_world
        "sha1_hexdigest demo_manifest_bytes" "sha1_hexdigest demo_manifest_bytes"
        demo_manifest demo_manifest_bytes demo_ciphertext]
    by blast
qed




text \<open>
  C7. With the content store, \<open>upload\<close> raises when connecting fails and when adding
  the ciphertext fails: for a document that serializes the exception is the one of the
  connection or of the add, for any document the call ends with an exception, and no
  block is stored. A backend key that \<open>upload\<close> does return is the key the store
  assigned, and the store holds a block under it. With the object store, \<open>download\<close>
  for a key under which the bucket holds nothing raises the error of the store.
\<close>

theorem backend_failure_isolation:
  assumes "json_dumps E msg True = Inr manifest" and "str_encode manifest = Inr manifest_bytes"
    and "ipfs_connect_fault w1 = Some e1"
    and "ipfs_connect_fault w2 = None"
    and "fst (u_encrypt E public_key manifest w2) = Inr encrypted_msg"
    and "ipfs_add_fault w2 = Some e2"
    and "fst (upload E msg public_key (Some False) w3) = Inr (hash, backend_key)"
    and "s3_client_fault w4 = None" and "s3_get_fault w4 = None"
    and "s3_objects w4 (ESCROW_BUCKETNAME E, key) = None"
  shows "fst (upload E msg public_key (Some False) w1) = Inl e1
         \<and> isl (fst (upload E msg' public_key' (Some False) w1))
         \<and> ipfs_blocks (snd (upload E msg' public_key' (Some False) w1)) = ipfs_blocks w1
         \<and> fst (upload E msg public_key (Some False) w2) = Inl e2
         \<and> isl (fst (upload E msg' public_key' (Some False) w2))
         \<and> ipfs_blocks (snd (upload E msg' public_key' (Some False) w2)) = ipfs_blocks w2
         \<and> (\<exists>c. backend_key = ipfs_key E c
                \<and> ipfs_blocks (snd (upload E msg public_key (Some False) w3)) backend_key = Some c)
         \<and> fst (download E key private_key (Some True) w4) = Inl (ClientError ''NoSuchKey'')"
proof -
  have f: "\<not> s3_default (Some False)" and t: "s3_default (Some True)"
    by (simp_all add: s3_default_def)
  have a: "fst (upload E msg public_key (Some False) w1) = Inl e1"
    using assms(1,2,3)
    by (simp add: upload_ipfs_result [OF f] ipfshttpclient_connect_def bind_exn_def)
  have b: "fst (upload E msg public_key (Some False) w2) = Inl e2"
    using assms(1,2,4,5,6)
    by (simp add: upload_ipfs_result [OF f] ipfshttpclient_connect_def add_bytes_def bind_exn_def)
  have c: "fst (download E key private_key (Some True) w4) = Inl (ClientError ''NoSuchKey'')"
    using assms(8,9,10)
    by (simp add: download_s3_result [OF t] boto3_client_def get_object_def bind_exn_def)
  show ?thesis
    using a b c upload_ipfs_stored [OF f assms(7)]
      upload_ipfs_fault_raises [of w1 e1 E msg' public_key']
      upload_ipfs_fault_raises [of w2 e2 E msg' public_key'] assms(3,6)
    by blast
qed

theorem backend_failure_isolation_witness:
  "json_dumps demo_env Task_label_reward_5 True = Inr demo_manifest
   \<and> str_encode demo_manifest = Inr demo_manifest_bytes
   \<and> ipfs_connect_fault (demo_world\<lparr>ipfs_connect_fault := Some ConnectionError\<rparr>) = Some ConnectionError
   \<and> ipfs_connect_fault (demo_world\<lparr>ipfs_add_fault := Some ErrorResponse\<rparr>) = None
   \<and> fst (u_encrypt demo_env demo_public_key demo_manifest
            (demo_world\<lparr>ipfs_add_fault := Some ErrorResponse\<rparr>)) = Inr demo_ciphertext
   \<and> ipfs_add_fault (demo_world\<lparr>ipfs_add_fault := Some ErrorResponse\<rparr>) = Some ErrorResponse
   \<and> fst (upload demo_env Task_label_reward_5 demo_public_key (Some False) demo_world)
       = Inr (sha1_hexdigest demo_manifest_bytes, ipfs_key demo_env demo_ciphertext)
   \<and> s3_client_fault demo_world = None \<and> s3_get_fault demo_world = None
   \<and> s3_objects demo_world (ESCROW_BUCKETNAME demo_env, ascii ''missing'') = None
   \<and> fst (upload demo_env Task_label_reward_5 demo_public_key (Some False)
            (demo_world\<lparr>ipfs_connect_fault := Some ConnectionError\<rparr>)) = Inl ConnectionError
   \<and> fst (upload demo_env Task_label_reward_5 demo_public_key (Some False)
            (demo_world\<lparr>ipfs_add_fault := Some ErrorResponse\<rparr>)) = Inl ErrorResponse
   \<and> (\<exists>c. ipfs_key demo_env demo_ciphertext = ipfs_key demo_env c
          \<and> ipfs_blocks (snd (upload demo_env Task_label_reward_5 demo_public_key (Some False) demo_world))
               (ipfs_key demo_env demo_ciphertext) = Some c)
   \<and> fst (download demo_env (ascii ''missing'') demo_private_key (Some True) demo_world)
       = Inl (ClientError ''NoSuchKey'')"
proof -
  have f: "\<not> s3_default (Some False)" by (simp add: s3_default_def)
  have enc: "fst (u_encrypt demo_env demo_public_key demo_manifest demo_world) = Inr demo_ciphertext"
    by (simp add: demo_encrypt demo_spec_encrypt)
  have h1: "ipfs_connect_fault (demo_world\<lparr>ipfs_connect_fault := Some ConnectionError\<rparr>) = Some ConnectionError"
    by simp
  have h2: "ipfs_connect_fault (demo_world\<lparr>ipfs_add_fault := Some ErrorResponse\<rparr>) = None"
    by (simp add: demo_world_fields)
  have h3: "fst (u_encrypt demo_env demo_public_key demo_manifest
            (demo_world\<lparr>ipfs_add_fault := Some ErrorResponse\<rparr>)) = Inr demo_ciphertext"
    using enc fst_u_encrypt_cong [of "demo_world\<lparr>ipfs_add_fault := Some ErrorResponse\<rparr>" demo_world
        demo_env demo_public_key demo_manifest]
    by simp
  have h4: "ipfs_add_fault (demo_world\<lparr>ipfs_add_fault := Some ErrorResponse\<rparr>) = Some ErrorResponse"
    by simp
  have h5: "fst (upload demo_env Task_label_reward_5 demo_public_key (Some False) demo_world)
       = Inr (sha1_hexdigest demo_manifest_bytes, ipfs_key demo_env demo_ciphertext)"
    using upload_ipfs_world [OF f demo_dumps_manifest demo_encode_manifest
        demo_world_fields(1) demo_world_fields(2) enc]
    by simp
  have h6: "s3_client_fault demo_world = None" "s3_get_fault demo_world = None"
    "s3_objects demo_world (ESCROW_BUCKETNAME demo_env, ascii ''missing'') = None"
    by (simp_all add: demo_world_def)
  show ?thesis
    using demo_dumps_manifest demo_encode_manifest h1 h2 h3 h4 h5 h6
      backend_failure_isolation [OF demo_dumps_manifest demo_encode_manifest h1 h2 h3 h4 h5 h6,
        where private_key = demo_private_key]
    by blast
qed


text \<open>
  C8. For the encryption scheme as the specification describes it: two encryptions of
  the same text for the same public key, one after the other, whose ephemeral keys have
  different public keys, give different ciphertexts, and the matching private key
  decrypts both to the text that was encrypted.
\<close>

theorem encryption_randomized:
  assumes "ecies_encrypt E = spec_encrypt P" and "ecies_decrypt E = spec_decrypt P"
    and "prims_ok P"
    and "bind_exn (hex_decode private_key) (keys_PrivateKey E) = Inr K"
    and "bind_exn (hex_decode public_key) (keys_PublicKey E) = Inr (public_key_of P K)"
    and "str_encode msg = Inr msg_bytes"
    and "public_key_of P (entropy w (draws w)) \<noteq> public_key_of P (entropy w (Suc (draws w)))"
  shows "\<exists>c1 c2 w1 w2.
           u_encrypt E public_key msg w = (Inr c1, w1)
           \<and> u_encrypt E public_key msg w1 = (Inr c2, w2)
           \<and> c1 \<noteq> c2
           \<and> u_decrypt E private_key c1 = Inr msg
           \<and> u_decrypt E private_key c2 = Inr msg"
proof -
  define smd where "smd = SHARED_MAC_DATA E"
  define w1 where "w1 = w\<lparr>draws := Suc (draws w)\<rparr>"
  define w2 where "w2 = w1\<lparr>draws := Suc (draws w1)\<rparr>"
  from spec_round_trip [OF assms(3), of "entropy w (draws w)" msg_bytes K smd] obtain c1 where
    c1: "spec_encrypt P (entropy w (draws w)) msg_bytes (public_key_of P K) smd = Inr c1"
        "spec_decrypt P c1 K smd = Inr msg_bytes"
    by blast
  from spec_round_trip [OF assms(3), of "entropy w (Suc (draws w))" msg_bytes K smd] obtain c2 where
    c2: "spec_encrypt P (entropy w (Suc (draws w))) msg_bytes (public_key_of P K) smd = Inr c2"
        "spec_decrypt P c2 K smd = Inr msg_bytes"
    by blast
  have e1: "u_encrypt E public_key msg w = (Inr c1, w1)"
    using assms(1,5,6) c1(1) by (simp add: u_encrypt_eq smd_def w1_def)
  have e2: "u_encrypt E public_key msg w1 = (Inr c2, w2)"
    using assms(1,5,6) c2(1) by (simp add: u_encrypt_eq smd_def w1_def w2_def)
  have ne: "c1 \<noteq> c2"
    using spec_encrypt_embeds_ephemeral [OF assms(3) c1(1) c2(1) assms(7)] .
  have d1: "u_decrypt E private_key c1 = Inr msg"
    using assms(2,4) c1(2) bytes_decode_str_encode [OF assms(6)]
    by (simp add: u_decrypt_def bind_exn_def smd_def)
  have d2: "u_decrypt E private_key c2 = Inr msg"
    using assms(2,4) c2(2) bytes_decode_str_encode [OF assms(6)]
    by (simp add: u_decrypt_def bind_exn_def smd_def)
  show ?thesis using e1 e2 ne d1 d2 by blast
qed

theorem encryption_randomized_witness:
  "ecies_encrypt demo_env = spec_encrypt demo_prims
   \<and> ecies_decrypt demo_env = spec_decrypt demo_prims
   \<and> prims_ok demo_prims
   \<and> bind_exn (hex_decode demo_private_key) (keys_PrivateKey demo_env) = Inr 0x07
   \<and> bind_exn (hex_decode demo_public_key) (keys_PublicKey demo_env)
       = Inr (public_key_of demo_prims 0x07)
   \<and> str_encode demo_manifest = Inr demo_manifest_bytes
   \<and> public_key_of demo_prims (entropy demo_world (draws demo_world))
       \<noteq> public_key_of demo_prims (entropy demo_world (Suc (draws demo_world)))
   \<and> (\<exists>c1 c2 w1 w2.
         u_encrypt demo_env demo_public_key demo_manifest demo_world = (Inr c1, w1)
         \<and> u_encrypt demo_env demo_public_key demo_manifest w1 = (Inr c2, w2)
         \<and> c1 \<noteq> c2
         \<and> u_decrypt demo_env demo_private_key c1 = Inr demo_manifest
         \<and> u_decrypt demo_env demo_private_key c2 = Inr demo_manifest)"
proof -
  have pk: "bind_exn (hex_decode demo_public_key) (keys_PublicKey demo_env)
              = Inr (public_key_of demo_prims 0x07)"
    using demo_public_key_decodes by (simp add: demo_prims_def)
  have fresh: "public_key_of demo_prims (entropy demo_world (draws demo_world))
       \<noteq> public_key_of demo_prims (entropy demo_world (Suc (draws demo_world)))"
    by (simp add: demo_prims_def demo_world_fields)
  show ?thesis
    using demo_env_scheme demo_prims_ok demo_private_key_decodes pk demo_encode_manifest fresh
      encryption_randomized [OF demo_env_scheme demo_prims_ok demo_private_key_decodes pk
        demo_encode_manifest fresh]
    by blast
qed


text \<open>
  C10. If \<open>json.dumps\<close> raises, \<open>upload\<close> raises the same exception for either
  backend choice, and the world is as before except for one logged error: no request
  was sent to either store, no store changed, no random bytes were drawn (nothing was
  encrypted) and no identifier is returned.
\<close>

theorem upload_unserializable:
  assumes "json_dumps E msg True = Inl e"
  shows "upload E msg public_key s3 w =
           (Inl e, w\<lparr>logged := logged w @ [LogRecord Error ''Can't extract the json from the dict'' []]\<rparr>)"
  using assms by (simp add: upload_def io_defs)

theorem upload_unserializable_witness:
  "json_dumps demo_env Not_serializable True = Inl TypeError
   \<and> upload demo_env Not_serializable demo_public_key (Some False) demo_world =
       (Inl TypeError,
        demo_world\<lparr>logged := logged demo_world @
           [LogRecord Error ''Can't extract the json from the dict'' []]\<rparr>)"
  using upload_unserializable [of demo_env Not_serializable TypeError demo_public_key "Some False" demo_world]
  by (simp add: demo_dumps_fails)

end
